theory Spec2Isabelle
  imports Complex_Main
begin

section \<open>Python string operations used by the script\<close>

text \<open>
  Strings are lists of characters. \<open>str.join\<close>, \<open>str.split\<close> with a one-character
  separator, the substring test \<open>sub in s\<close> and \<open>list.insert\<close> are written out as
  Python defines them.
\<close>

fun join :: "string \<Rightarrow> string list \<Rightarrow> string" where
  "join sep [] = []"
| "join sep [x] = x"
| "join sep (x # y # ys) = x @ sep @ join sep (y # ys)"

fun py_split :: "char \<Rightarrow> string \<Rightarrow> string list" where
  "py_split sep [] = [[]]"
| "py_split sep (c # cs) =
     (if c = sep then [] # py_split sep cs
      else (case py_split sep cs of
              [] \<Rightarrow> [[c]]
            | x # xs \<Rightarrow> (c # x) # xs))"

fun startswith :: "string \<Rightarrow> string \<Rightarrow> bool" where
  "startswith s [] = True"
| "startswith [] (p # ps) = False"
| "startswith (c # cs) (p # ps) = (c = p \<and> startswith cs ps)"

fun py_in :: "string \<Rightarrow> string \<Rightarrow> bool" where
  "py_in sub [] = (sub = [])"
| "py_in sub (c # cs) = (startswith (c # cs) sub \<or> py_in sub cs)"

definition list_insert :: "nat \<Rightarrow> 'a \<Rightarrow> 'a list \<Rightarrow> 'a list" where
  "list_insert i x xs = take i xs @ x # drop i xs"

section \<open>The processor and its filter chain\<close>

text \<open>
  The attributes that \<open>VoicePromptProcessor.__init__\<close> sets. All of them are strings,
  \<open>eq_filters\<close> is a list of strings.
\<close>

record processor =
  silence_threshold :: string
  silence_duration :: string
  max_silence_duration :: string
  target_loudness :: string
  eq_filters :: "string list"
  noise_reduction :: string
  compressor :: string

definition VoicePromptProcessor :: processor where
  "VoicePromptProcessor =
     \<lparr> silence_threshold = ''-40dB'',
       silence_duration = ''0.5'',
       max_silence_duration = ''0.5'',
       target_loudness = ''-16'',
       eq_filters =
         [''highpass=f=100'',
          ''lowpass=f=10000'',
          ''equalizer=f=150:t=q:w=1:g=-3'',
          ''equalizer=f=200:t=q:w=1:g=-2'',
          ''equalizer=f=3000:t=q:w=2:g=3''],
       noise_reduction = ''afftdn=nf=-25'',
       compressor = ''acompressor=threshold=-20dB:ratio=4:attack=5:release=50'' \<rparr>"

text \<open>The two stages that \<open>build_filter_chain\<close> formats from the attributes.\<close>

definition silence_filter :: "processor \<Rightarrow> string" where
  "silence_filter self =
     ''silenceremove='' @
     ''start_periods=1:'' @
     ''start_silence='' @ silence_duration self @ '':'' @
     ''start_threshold='' @ silence_threshold self @ '':'' @
     ''stop_periods=-1:'' @
     ''stop_silence='' @ silence_duration self @ '':'' @
     ''stop_threshold='' @ silence_threshold self @ '':'' @
     ''detection=peak''"

definition loudnorm_filter :: "processor \<Rightarrow> string" where
  "loudnorm_filter self = ''loudnorm=I='' @ target_loudness self @ '':TP=-1.5:LRA=11''"

text \<open>
  The list \<open>filters\<close> of \<open>build_filter_chain\<close> after its appends and its extend, and
  the string the method returns.
\<close>

definition filters :: "processor \<Rightarrow> string list" where
  "filters self =
     (([] @ [noise_reduction self]) @ [silence_filter self]) @ eq_filters self
       @ [compressor self] @ [loudnorm_filter self]"

definition build_filter_chain :: "processor \<Rightarrow> string" where
  "build_filter_chain self = join '','' (filters self)"

section \<open>Command-line arguments\<close>

text \<open>
  The namespace that \<open>argparse\<close> hands to \<open>main\<close>. The optional positional
  \<open>output\<close> is \<open>None\<close> when it is not given; the three tuning options always carry a
  string (their defaults are \<open>-35dB\<close>, \<open>0.4\<close> and \<open>-16\<close>).
\<close>

record args =
  arg_input :: string
  arg_output :: "string option"
  arg_verbose :: bool
  arg_analyze :: bool
  arg_silence_threshold :: string
  arg_silence_duration :: string
  arg_target_loudness :: string

definition parse_defaults :: "string \<Rightarrow> args" where
  "parse_defaults inp =
     \<lparr> arg_input = inp, arg_output = None, arg_verbose = False, arg_analyze = False,
       arg_silence_threshold = ''-35dB'', arg_silence_duration = ''0.4'',
       arg_target_loudness = ''-16'' \<rparr>"

text \<open>
  Lines 240 to 246 of \<open>main\<close>: each \<open>if args.x:\<close> tests the truth value of a string,
  which is false exactly for the empty string.
\<close>

definition override_defaults :: "args \<Rightarrow> processor \<Rightarrow> processor" where
  "override_defaults a p0 =
     (let p1 = (if arg_silence_threshold a \<noteq> []
                then p0\<lparr>silence_threshold := arg_silence_threshold a\<rparr> else p0);
          p2 = (if arg_silence_duration a \<noteq> []
                then p1\<lparr>silence_duration := arg_silence_duration a\<rparr> else p1);
          p3 = (if arg_target_loudness a \<noteq> []
                then p2\<lparr>target_loudness := arg_target_loudness a\<rparr> else p2)
      in p3)"

section \<open>Paths\<close>

text \<open>
  \<open>pathlib.Path\<close> on a POSIX system, as far as \<open>main\<close> uses it. A path is parsed into
  a root (empty, \<open>/\<close> or \<open>//\<close>) and the list of its components; empty components and
  \<open>.\<close> are dropped. \<open>stem\<close> and \<open>suffix\<close> cut the last component at its last dot,
  unless that dot is the first or the last character. \<open>rfind\<close> returns \<open>None\<close> where
  Python returns \<open>-1\<close>.
\<close>

record pure_path =
  root :: string
  tail :: "string list"

definition splitroot :: "string \<Rightarrow> string \<times> string" where
  "splitroot p =
     (if take 1 p \<noteq> ''/'' then ([], p)
      else if take 1 (drop 1 p) \<noteq> ''/'' \<or> take 1 (drop 2 p) = ''/'' then (''/'', drop 1 p)
      else (take 2 p, drop 2 p))"

definition parse_parts :: "string \<Rightarrow> string list" where
  "parse_parts rel = filter (\<lambda>x. x \<noteq> [] \<and> x \<noteq> ''.'') (py_split CHR ''/'' rel)"

definition Path :: "string \<Rightarrow> pure_path" where
  "Path s = (case splitroot s of (r, rel) \<Rightarrow> \<lparr> root = r, tail = parse_parts rel \<rparr>)"

definition str_path :: "pure_path \<Rightarrow> string" where
  "str_path p =
     (let s = (if root p \<noteq> [] then root p @ join ''/'' (tail p) else join ''/'' (tail p))
      in if s \<noteq> [] then s else ''.'')"

definition name :: "pure_path \<Rightarrow> string" where
  "name p = (if tail p = [] then [] else last (tail p))"

fun rfind :: "char \<Rightarrow> string \<Rightarrow> nat option" where
  "rfind c [] = None"
| "rfind c (x # xs) =
     (case rfind c xs of
        Some i \<Rightarrow> Some (Suc i)
      | None \<Rightarrow> if x = c then Some 0 else None)"

definition suffix :: "pure_path \<Rightarrow> string" where
  "suffix p =
     (case rfind CHR ''.'' (name p) of
        None \<Rightarrow> []
      | Some i \<Rightarrow> if 0 < i \<and> Suc i < length (name p) then drop i (name p) else [])"

definition stem :: "pure_path \<Rightarrow> string" where
  "stem p =
     (case rfind CHR ''.'' (name p) of
        None \<Rightarrow> name p
      | Some i \<Rightarrow> if 0 < i \<and> Suc i < length (name p) then take i (name p) else name p)"

definition parent :: "pure_path \<Rightarrow> pure_path" where
  "parent p = (if tail p = [] then p else p\<lparr>tail := butlast (tail p)\<rparr>)"

text \<open>
  \<open>p / key\<close> for a string \<open>key\<close>: an absolute \<open>key\<close> replaces \<open>p\<close>, any other is
  parsed and appended to the components of \<open>p\<close>.
\<close>

definition truediv :: "pure_path \<Rightarrow> string \<Rightarrow> pure_path" where
  "truediv p key =
     (if take 1 key = ''/'' then Path key
      else p\<lparr>tail := tail p @ parse_parts key\<rparr>)"

text \<open>Lines 261 and 262 of \<open>main\<close>: the output file name when none is given.\<close>

definition default_output_file :: "string \<Rightarrow> string" where
  "default_output_file inp =
     (let input_path = Path inp
      in str_path (truediv (parent input_path)
           (stem input_path @ ''_processed'' @ suffix input_path)))"

section \<open>The environment: file system, child processes, terminal\<close>

text \<open>
  What a finished child process leaves behind: its exit status, the text of its two
  output streams and the sizes of the files that exist when it has exited. A child
  ended by a signal is outside the model.
\<close>

record completed =
  returncode :: nat
  stdout :: string
  stderr :: string
  files_after :: "string \<rightharpoonup> nat"

text \<open>
  Exceptions that the script's own calls raise. \<open>CalledProcessError\<close> carries the
  command, the exit status and the two captured streams (\<open>None\<close> when not captured).
\<close>

datatype exn =
    CalledProcessError "string list" nat "string option" "string option"
  | FileNotFoundError
  | ZeroDivisionError

text \<open>
  Everything the script does to the outside, in order. \<open>Stream\<close> is the output of a
  child whose streams are not captured and so reach the terminal. \<open>PrintFileSize\<close> is the
  file-size line of \<open>process_audio\<close>, with the three numbers it formats (the megabyte
  sizes and the reduction), kept as exact rationals: the rounding of floating point and
  of the \<open>.2f\<close> and \<open>.1f\<close> formats is not modelled.
\<close>

datatype event =
    Spawn "string list"
  | Stream string string
  | Exists string
  | Getsize string
  | Print string
  | PrintFileSize rat rat rat

text \<open>
  The world of one run: whether the \<open>ffmpeg\<close> binary can be executed, what it does
  for a command on a file system, the sizes of the existing files, and the events so far.
\<close>

record world =
  installed :: bool
  engine :: "string list \<Rightarrow> (string \<rightharpoonup> nat) \<Rightarrow> completed"
  files :: "string \<rightharpoonup> nat"
  trace :: "event list"

definition log :: "event \<Rightarrow> world \<Rightarrow> world" where
  "log e w = w\<lparr>trace := trace w @ [e]\<rparr>"

definition print :: "string \<Rightarrow> world \<Rightarrow> world" where
  "print s w = log (Print s) w"

text \<open>
  \<open>subprocess.run(cmd, check=True)\<close> with both streams captured or neither. A missing
  binary raises \<open>FileNotFoundError\<close>, a non-zero exit status \<open>CalledProcessError\<close>. The
  call is recorded also when the binary is missing. The child's streams are the text that
  Python hands on; other operating-system errors (a binary that is present and not
  executable, an undecodable stream) are outside the model.
\<close>

definition subprocess_run :: "string list \<Rightarrow> bool \<Rightarrow> world \<Rightarrow> (exn + completed) \<times> world" where
  "subprocess_run cmd capture w =
     (let w1 = log (Spawn cmd) w in
      if \<not> installed w1 then (Inl FileNotFoundError, w1)
      else
        let r = engine w1 cmd (files w1);
            w2 = w1\<lparr>files := files_after r\<rparr>;
            w3 = (if capture then w2 else log (Stream (stdout r) (stderr r)) w2)
        in if returncode r \<noteq> 0
           then (Inl (CalledProcessError cmd (returncode r)
                        (if capture then Some (stdout r) else None)
                        (if capture then Some (stderr r) else None)), w3)
           else (Inr r, w3))"

definition path_exists :: "string \<Rightarrow> world \<Rightarrow> bool \<times> world" where
  "path_exists p w = (files w p \<noteq> None, log (Exists p) w)"

definition getsize :: "string \<Rightarrow> world \<Rightarrow> (exn + nat) \<times> world" where
  "getsize p w =
     (case files w p of
        None \<Rightarrow> (Inl FileNotFoundError, log (Getsize p) w)
      | Some n \<Rightarrow> (Inr n, log (Getsize p) w))"

section \<open>Text of a \<open>CalledProcessError\<close>\<close>

text \<open>
  \<open>str(e)\<close> of a \<open>CalledProcessError\<close> with a non-negative status formats the command
  with \<open>repr\<close> and the status in decimal. \<open>repr\<close> of a string picks the quote, escapes
  the quote, the backslash and the control characters, and leaves every other character.
\<close>

definition digit :: "nat \<Rightarrow> char" where
  "digit d = ''0123456789abcdef'' ! d"

function str_nat :: "nat \<Rightarrow> string" where
  "str_nat n = (if n < 10 then [digit n] else str_nat (n div 10) @ [digit (n mod 10)])"
  by pat_completeness auto
termination
  by (relation "measure (\<lambda>n. n)") auto

declare str_nat.simps [simp del]

definition repr_char :: "char \<Rightarrow> char \<Rightarrow> string" where
  "repr_char quote ch =
     (if ch = quote \<or> ch = CHR 0x5C then [CHR 0x5C, ch]
      else if ch = CHR 0x09 then [CHR 0x5C, CHR ''t'']
      else if ch = CHR 0x0A then [CHR 0x5C, CHR ''n'']
      else if ch = CHR 0x0D then [CHR 0x5C, CHR ''r'']
      else if (of_char ch :: nat) < 32 \<or> ch = CHR 0x7F
        then [CHR 0x5C, CHR ''x'', digit (of_char ch div 16), digit (of_char ch mod 16)]
      else [ch])"

definition repr_str :: "string \<Rightarrow> string" where
  "repr_str s =
     (let quote = (if CHR 0x27 \<in> set s \<and> CHR 0x22 \<notin> set s then CHR 0x22 else CHR 0x27)
      in [quote] @ concat (map (repr_char quote) s) @ [quote])"

definition repr_list :: "string list \<Rightarrow> string" where
  "repr_list xs = ''['' @ join '', '' (map repr_str xs) @ '']''"

definition str_CalledProcessError :: "string list \<Rightarrow> nat \<Rightarrow> string" where
  "str_CalledProcessError cmd rc =
     ''Command '' @ [CHR 0x27] @ repr_list cmd @ [CHR 0x27] @
     '' returned non-zero exit status '' @ str_nat rc @ ''.''"

section \<open>The methods of \<open>VoicePromptProcessor\<close>\<close>

text \<open>
  Each method takes the world and returns it with its result, \<open>Inl\<close> for an exception
  that leaves the method. \<open>check_ffmpeg\<close> catches \<open>CalledProcessError\<close> and
  \<open>FileNotFoundError\<close>; the other two catch \<open>CalledProcessError\<close> only.
\<close>

definition check_ffmpeg :: "world \<Rightarrow> (exn + bool) \<times> world" where
  "check_ffmpeg w =
     (case subprocess_run [''ffmpeg'', ''-version''] True w of
        (Inr r, w1) \<Rightarrow> (Inr True, w1)
      | (Inl (CalledProcessError c rc out err), w1) \<Rightarrow>
          (Inr False,
           print ''Error: ffmpeg not found. Please install ffmpeg to use this script.'' w1)
      | (Inl FileNotFoundError, w1) \<Rightarrow>
          (Inr False,
           print ''Error: ffmpeg not found. Please install ffmpeg to use this script.'' w1)
      | (Inl ZeroDivisionError, w1) \<Rightarrow> (Inl ZeroDivisionError, w1))"

text \<open>The command list of \<open>process_audio\<close>, after the two inserts of quiet mode.\<close>

definition process_cmd :: "processor \<Rightarrow> string \<Rightarrow> string \<Rightarrow> bool \<Rightarrow> string list" where
  "process_cmd self input_file output_file verbose =
     (let cmd = [''ffmpeg'',
                 ''-i'', input_file,
                 ''-af'', build_filter_chain self,
                 ''-ar'', ''44100'',
                 ''-ac'', ''1'',
                 ''-c:a'', ''libmp3lame'',
                 ''-b:a'', ''96k'',
                 ''-y'',
                 output_file]
      in if verbose then cmd
         else list_insert 2 ''error'' (list_insert 1 ''-loglevel'' cmd))"

definition process_audio ::
  "processor \<Rightarrow> string \<Rightarrow> string \<Rightarrow> bool \<Rightarrow> world \<Rightarrow> (exn + bool) \<times> world" where
  "process_audio self input_file output_file verbose w =
     (case path_exists input_file w of
        (False, w1) \<Rightarrow>
          (Inr False,
           print (''Error: Input file '' @ [CHR 0x27] @ input_file @ [CHR 0x27] @ '' not found.'') w1)
      | (True, w1) \<Rightarrow>
          let filter_chain = build_filter_chain self;
              cmd = process_cmd self input_file output_file verbose;
              w2 = (if verbose
                    then print (''\<newline>Filter chain: '' @ filter_chain @ ''\<newline>'')
                           (print (''Output: '' @ output_file)
                             (print (''\<newline>Processing: '' @ input_file) w1))
                    else w1)
          in (case subprocess_run cmd (\<not> verbose) w2 of
                (Inl (CalledProcessError c rc out err), w3) \<Rightarrow>
                  (Inr False,
                   print (''Error processing audio: '' @ str_CalledProcessError c rc) w3)
              | (Inl FileNotFoundError, w3) \<Rightarrow> (Inl FileNotFoundError, w3)
              | (Inl ZeroDivisionError, w3) \<Rightarrow> (Inl ZeroDivisionError, w3)
              | (Inr result, w3) \<Rightarrow>
                  let w4 = (if verbose
                            then print ([CHR 0x0A, CHR 0xE2, CHR 0x9C, CHR 0x93]
                                          @ '' Processing complete!'') w3
                            else w3)
                  in (case getsize input_file w4 of
                        (Inl e, w5) \<Rightarrow> (Inl e, w5)
                      | (Inr isz, w5) \<Rightarrow>
                         (case getsize output_file w5 of
                            (Inl e, w6) \<Rightarrow> (Inl e, w6)
                          | (Inr osz, w6) \<Rightarrow>
                              let input_size = (of_nat isz :: rat) / 1024 / 1024;
                                  output_size = (of_nat osz :: rat) / 1024 / 1024
                              in if input_size = 0 then (Inl ZeroDivisionError, w6)
                                 else
                                   let reduction = ((input_size - output_size) / input_size) * 100
                                   in (Inr True,
                                       log (PrintFileSize input_size output_size reduction) w6)))))"

text \<open>
  The loop of \<open>analyze_silence\<close> over the lines of the captured error stream: it prints
  the lines that mention \<open>silencedetect\<close> and \<open>silence_\<close> and collects those among them
  that mention \<open>silence_duration\<close>.
\<close>

fun scan_lines :: "string list \<Rightarrow> string list \<Rightarrow> world \<Rightarrow> string list \<times> world" where
  "scan_lines [] silence_events w = (silence_events, w)"
| "scan_lines (line # ls) silence_events w =
     (if py_in ''silencedetect'' line \<and> py_in ''silence_'' line
      then scan_lines ls
             (if py_in ''silence_duration'' line then silence_events @ [line] else silence_events)
             (print line w)
      else scan_lines ls silence_events w)"

definition analyze_cmd :: "processor \<Rightarrow> string \<Rightarrow> string list" where
  "analyze_cmd self input_file =
     [''ffmpeg'',
      ''-i'', input_file,
      ''-af'', ''silencedetect=noise='' @ silence_threshold self @ '':d='' @ silence_duration self,
      ''-f'', ''null'',
      ''-'']"

definition analyze_silence :: "processor \<Rightarrow> string \<Rightarrow> world \<Rightarrow> (exn + unit) \<times> world" where
  "analyze_silence self input_file w =
     (let cmd = analyze_cmd self input_file;
          w1 = print (''\<newline>Analyzing silence patterns in: '' @ input_file) w;
          w2 = print (''Threshold: '' @ silence_threshold self @ '', Min duration: ''
                        @ silence_duration self @ ''s\<newline>'') w1
      in (case subprocess_run cmd True w2 of
            (Inl (CalledProcessError c rc out err), w3) \<Rightarrow>
              (Inr (), print (''Error analyzing silence: '' @ str_CalledProcessError c rc) w3)
          | (Inl FileNotFoundError, w3) \<Rightarrow> (Inl FileNotFoundError, w3)
          | (Inl ZeroDivisionError, w3) \<Rightarrow> (Inl ZeroDivisionError, w3)
          | (Inr result, w3) \<Rightarrow>
              (case scan_lines (py_split CHR ''\<newline>'' (stderr result)) [] w3 of
                 (silence_events, w4) \<Rightarrow>
                   (Inr (),
                    print (''\<newline>Total silence periods detected: ''
                             @ str_nat (length silence_events)) w4))))"

section \<open>The command-line entry point\<close>

text \<open>
  \<open>main\<close> after argument parsing. \<open>if args.output:\<close> is false for a missing and for an
  empty output argument.
\<close>

definition main :: "args \<Rightarrow> world \<Rightarrow> (exn + int) \<times> world" where
  "main a w =
     (let processor = override_defaults a VoicePromptProcessor
      in (case check_ffmpeg w of
            (Inl e, w1) \<Rightarrow> (Inl e, w1)
          | (Inr False, w1) \<Rightarrow> (Inr 1, w1)
          | (Inr True, w1) \<Rightarrow>
              if arg_analyze a
              then (case analyze_silence processor (arg_input a) w1 of
                      (Inl e, w2) \<Rightarrow> (Inl e, w2)
                    | (Inr u, w2) \<Rightarrow> (Inr 0, w2))
              else
                let output_file =
                      (case arg_output a of
                         None \<Rightarrow> default_output_file (arg_input a)
                       | Some out \<Rightarrow> if out \<noteq> [] then out
                                     else default_output_file (arg_input a))
                in (case process_audio processor (arg_input a) output_file (arg_verbose a) w1 of
                      (Inl e, w2) \<Rightarrow> (Inl e, w2)
                    | (Inr success, w2) \<Rightarrow> (Inr (if success then 0 else 1), w2))))"

text \<open>
  \<open>sys.exit(main())\<close>: the exit status of the process is the value \<open>main\<close> returns; an
  exception that leaves \<open>main\<close> ends the interpreter with status 1.
\<close>

definition sys_exit :: "(exn + int) \<Rightarrow> int" where
  "sys_exit r = (case r of Inr code \<Rightarrow> code | Inl e \<Rightarrow> 1)"

section \<open>Vocabulary of the properties\<close>

text \<open>
  The availability probe is the first child of every run. \<open>probe_ok\<close> says that the
  binary is there and the probe exits with status 0; \<open>after_probe\<close> is the world that a
  successful probe leaves. \<open>spawned\<close> lists the commands of a trace.
\<close>

definition probe :: "world \<Rightarrow> completed" where
  "probe w = engine w [''ffmpeg'', ''-version''] (files w)"

definition probe_ok :: "world \<Rightarrow> bool" where
  "probe_ok w = (installed w \<and> returncode (probe w) = 0)"

definition after_probe :: "world \<Rightarrow> world" where
  "after_probe w =
     w\<lparr>files := files_after (probe w), trace := trace w @ [Spawn [''ffmpeg'', ''-version'']]\<rparr>"

fun spawned :: "event list \<Rightarrow> string list list" where
  "spawned [] = []"
| "spawned (Spawn cmd # es) = cmd # spawned es"
| "spawned (e # es) = spawned es"


text \<open>The output file that \<open>main\<close> passes to \<open>process_audio\<close>.\<close>

definition output_file_of :: "args \<Rightarrow> string" where
  "output_file_of a =
     (case arg_output a of
        None \<Rightarrow> default_output_file (arg_input a)
      | Some out \<Rightarrow> if out \<noteq> [] then out else default_output_file (arg_input a))"


section \<open>Example runs\<close>

text \<open>
  Two engines for concrete runs. Both answer the probe with status 0. The first one
  reports one silence period on a null-sink command and writes a 250000-byte output file
  on any other; the second one fails every command but the probe with status 1 and a
  diagnostic on its error stream. \<open>demo_world\<close> holds one input file of 1000000 bytes;
  \<open>bare_world\<close> has no binary, and in \<open>broken_world\<close> every child exits with status 1.
\<close>

definition demo_engine :: "string list \<Rightarrow> (string \<rightharpoonup> nat) \<Rightarrow> completed" where
  "demo_engine cmd fs =
     (if cmd = [''ffmpeg'', ''-version'']
      then \<lparr> returncode = 0, stdout = ''ffmpeg version 6.0'', stderr = [], files_after = fs \<rparr>
      else if last cmd = ''-''
      then \<lparr> returncode = 0, stdout = [],
             stderr = ''[silencedetect @ 0x1] silence_start: 1.5\<newline>'' @
                      ''[silencedetect @ 0x1] silence_end: 2.7 | silence_duration: 1.2\<newline>'',
             files_after = fs \<rparr>
      else \<lparr> returncode = 0, stdout = [], stderr = [],
             files_after = fs(last cmd \<mapsto> 250000) \<rparr>)"

definition failing_engine :: "string list \<Rightarrow> (string \<rightharpoonup> nat) \<Rightarrow> completed" where
  "failing_engine cmd fs =
     (if cmd = [''ffmpeg'', ''-version'']
      then \<lparr> returncode = 0, stdout = ''ffmpeg version 6.0'', stderr = [], files_after = fs \<rparr>
      else \<lparr> returncode = 1, stdout = [],
             stderr = ''talk.mp3: Invalid data found when processing input'',
             files_after = fs \<rparr>)"

definition demo_world :: world where
  "demo_world =
     \<lparr> installed = True, engine = demo_engine,
       files = [''talk.mp3'' \<mapsto> 1000000], trace = [] \<rparr>"

definition failing_world :: world where
  "failing_world = demo_world\<lparr>engine := failing_engine\<rparr>"

definition bare_world :: world where
  "bare_world = demo_world\<lparr>installed := False\<rparr>"

definition broken_world :: world where
  "broken_world =
     demo_world\<lparr>engine :=
       (\<lambda>cmd fs. \<lparr> returncode = 1, stdout = [], stderr = [], files_after = fs \<rparr>)\<rparr>"

section \<open>Properties of the filter chain\<close>

lemma join_Cons: "ys \<noteq> [] \<Longrightarrow> join sep (x # ys) = x @ sep @ join sep ys"
  by (cases ys) simp_all

lemma join_append_nonempty:
  "ys \<noteq> [] \<Longrightarrow> join sep (xs @ ys) = concat (map (\<lambda>x. x @ sep) xs) @ join sep ys"
  by (induction xs) (simp_all add: join_Cons)

lemma py_split_no_sep: "x \<in> set (py_split c s) \<Longrightarrow> c \<notin> set x"
proof (induction s arbitrary: x)
  case Nil
  then show ?case by simp
next
  case (Cons a s)
  then show ?case
    by (cases "py_split c s") (auto split: if_splits)
qed

lemma py_split_plain: "c \<notin> set x \<Longrightarrow> py_split c x = [x]"
  by (induction x) auto

lemma py_split_append: "c \<notin> set x \<Longrightarrow> py_split c (x @ c # rest) = x # py_split c rest"
  by (induction x) (auto split: list.split)

lemma py_split_join:
  "\<forall>x\<in>set (p # ps). c \<notin> set x \<Longrightarrow> py_split c (join [c] (p # ps)) = p # ps"
proof (induction ps arbitrary: p)
  case Nil
  then show ?case by (simp add: py_split_plain)
next
  case (Cons q ps)
  then show ?case by (simp add: py_split_append)
qed

text \<open>
  C3. For every configuration the chain string is the noise-reduction stage, the
  silence-removal stage, every equalization stage in its listed order, the compressor
  stage and the loudness-normalization stage, in this order, each but the last followed
  by the separator \<open>,\<close>.
\<close>

theorem build_filter_chain_stage_order:
  "build_filter_chain self =
     noise_reduction self @ '','' @
     silence_filter self @ '','' @
     concat (map (\<lambda>e. e @ '','') (eq_filters self)) @
     compressor self @ '','' @
     loudnorm_filter self"
proof -
  have "join '','' (eq_filters self @ [compressor self, loudnorm_filter self]) =
        concat (map (\<lambda>e. e @ '','') (eq_filters self)) @
        compressor self @ '','' @ loudnorm_filter self"
    by (simp add: join_append_nonempty)
  then show ?thesis
    by (simp add: build_filter_chain_def filters_def join_Cons)
qed

text \<open>
  C10. Two configurations that differ only in \<open>max_silence_duration\<close> give the same
  chain string: the builder never reads that attribute, and the \<open>stop_silence\<close>
  parameter of the silence-removal stage is the \<open>silence_duration\<close> attribute.
\<close>

theorem build_filter_chain_ignores_max_silence_duration:
  "build_filter_chain (self\<lparr>max_silence_duration := m\<rparr>) = build_filter_chain self \<and>
   silence_filter (self\<lparr>max_silence_duration := m\<rparr>) =
     ''silenceremove=start_periods=1:start_silence='' @ silence_duration self @
     '':start_threshold='' @ silence_threshold self @
     '':stop_periods=-1:stop_silence='' @ silence_duration self @
     '':stop_threshold='' @ silence_threshold self @ '':detection=peak''"
  by (simp add: build_filter_chain_def filters_def silence_filter_def loudnorm_filter_def)

text \<open>
  The separator does not blur the order: when no stage contains a comma, as in the
  configuration of the constructor, splitting the chain at the commas gives back the
  stages in the order above.
\<close>

lemma filters_stages:
  "filters self =
     noise_reduction self # silence_filter self # eq_filters self @
       [compressor self, loudnorm_filter self]"
  by (simp add: filters_def)

lemma split_build_filter_chain:
  assumes "\<forall>stage\<in>set (filters self). CHR '','' \<notin> set stage"
  shows "py_split CHR '','' (build_filter_chain self) =
     noise_reduction self # silence_filter self # eq_filters self @
       [compressor self, loudnorm_filter self]"
proof -
  have "py_split CHR '','' (join '','' (noise_reduction self # silence_filter self #
          eq_filters self @ [compressor self, loudnorm_filter self])) =
        noise_reduction self # silence_filter self # eq_filters self @
          [compressor self, loudnorm_filter self]"
    using assms by (intro py_split_join) (simp add: filters_stages)
  then show ?thesis
    by (simp only: build_filter_chain_def filters_stages)
qed

lemma split_default_filter_chain:
  "py_split CHR '','' (build_filter_chain VoicePromptProcessor) =
     [''afftdn=nf=-25'',
      ''silenceremove=start_periods=1:start_silence=0.5:start_threshold=-40dB:stop_periods=-1:stop_silence=0.5:stop_threshold=-40dB:detection=peak'',
      ''highpass=f=100'',
      ''lowpass=f=10000'',
      ''equalizer=f=150:t=q:w=1:g=-3'',
      ''equalizer=f=200:t=q:w=1:g=-2'',
      ''equalizer=f=3000:t=q:w=2:g=3'',
      ''acompressor=threshold=-20dB:ratio=4:attack=5:release=50'',
      ''loudnorm=I=-16:TP=-1.5:LRA=11'']"
proof -
  have "\<forall>stage\<in>set (filters VoicePromptProcessor). CHR '','' \<notin> set stage"
    by (simp add: filters_def VoicePromptProcessor_def silence_filter_def loudnorm_filter_def)
  then show ?thesis
    by (simp add: split_build_filter_chain)
       (simp add: VoicePromptProcessor_def silence_filter_def loudnorm_filter_def)
qed

section \<open>Basic facts about a run\<close>

lemma check_ffmpeg_ok:
  "probe_ok w \<Longrightarrow> check_ffmpeg w = (Inr True, after_probe w)"
  by (simp add: check_ffmpeg_def subprocess_run_def probe_ok_def probe_def after_probe_def
      log_def Let_def)

lemma check_ffmpeg_failed:
  "\<not> probe_ok w \<Longrightarrow>
   check_ffmpeg w =
     (Inr False,
      w\<lparr>files := (if installed w then files_after (probe w) else files w),
        trace := trace w @ [Spawn [''ffmpeg'', ''-version''],
          Print ''Error: ffmpeg not found. Please install ffmpeg to use this script.'']\<rparr>)"
  by (simp add: check_ffmpeg_def subprocess_run_def probe_ok_def probe_def
      log_def print_def Let_def)

lemma main_analyze:
  "probe_ok w \<Longrightarrow> arg_analyze a \<Longrightarrow>
   fst (main a w) =
     (case fst (analyze_silence (override_defaults a VoicePromptProcessor) (arg_input a)
                  (after_probe w)) of
        Inl e \<Rightarrow> Inl e
      | Inr u \<Rightarrow> Inr 0) \<and>
   snd (main a w) =
     snd (analyze_silence (override_defaults a VoicePromptProcessor) (arg_input a)
            (after_probe w))"
  by (simp add: main_def check_ffmpeg_ok case_prod_beta split: sum.split)

lemma main_process:
  "probe_ok w \<Longrightarrow> \<not> arg_analyze a \<Longrightarrow>
   fst (main a w) =
     (case fst (process_audio (override_defaults a VoicePromptProcessor) (arg_input a)
                  (output_file_of a) (arg_verbose a) (after_probe w)) of
        Inl e \<Rightarrow> Inl e
      | Inr success \<Rightarrow> Inr (if success then 0 else 1)) \<and>
   snd (main a w) =
     snd (process_audio (override_defaults a VoicePromptProcessor) (arg_input a)
            (output_file_of a) (arg_verbose a) (after_probe w))"
  by (simp add: main_def check_ffmpeg_ok output_file_of_def case_prod_beta split: sum.split)

lemma process_audio_missing:
  "files w input_file = None \<Longrightarrow>
   process_audio self input_file output_file verbose w =
     (Inr False,
      w\<lparr>trace := trace w @ [Exists input_file,
        Print (''Error: Input file '' @ [CHR 0x27] @ input_file @ [CHR 0x27] @ '' not found.'')]\<rparr>)"
  by (simp add: process_audio_def path_exists_def log_def print_def)


lemma process_audio_reported:
  assumes "files w input_file \<noteq> None" "installed w"
    and "r = engine w (process_cmd self input_file output_file verbose) (files w)"
    and "returncode r = 0"
    and "files_after r input_file = Some isz" "files_after r output_file = Some osz"
    and "0 < isz"
  shows "process_audio self input_file output_file verbose w =
     (Inr True,
      w\<lparr>files := files_after r,
        trace := trace w @ [Exists input_file] @
          (if verbose
           then [Print (''\<newline>Processing: '' @ input_file),
                 Print (''Output: '' @ output_file),
                 Print (''\<newline>Filter chain: '' @ build_filter_chain self @ ''\<newline>'')]
           else []) @
          [Spawn (process_cmd self input_file output_file verbose)] @
          (if verbose
           then [Stream (stdout r) (stderr r),
                 Print ([CHR 0x0A, CHR 0xE2, CHR 0x9C, CHR 0x93] @ '' Processing complete!'')]
           else []) @
          [Getsize input_file, Getsize output_file,
           PrintFileSize (of_nat isz / 1024 / 1024) (of_nat osz / 1024 / 1024)
             ((of_nat isz - of_nat osz) / of_nat isz * 100)]\<rparr>)"
proof -
  have red: "((of_nat isz / 1024 / 1024 - of_nat osz / 1024 / 1024) / (of_nat isz / 1024 / 1024)) * 100
      = ((of_nat isz - of_nat osz) / of_nat isz * 100 :: rat)"
    using \<open>0 < isz\<close> by (simp add: field_simps)
  show ?thesis
    using assms red
    by (cases verbose)
       (simp_all add: process_audio_def path_exists_def subprocess_run_def getsize_def
          log_def print_def Let_def)
qed

text \<open>
  The size report needs a positive input size: for an input of size 0 the division
  raises and no report is printed.
\<close>

lemma process_audio_empty_input:
  assumes "files w input_file \<noteq> None" "installed w"
    and "r = engine w (process_cmd self input_file output_file verbose) (files w)"
    and "returncode r = 0"
    and "files_after r input_file = Some 0" "files_after r output_file = Some osz"
  shows "fst (process_audio self input_file output_file verbose w) = Inl ZeroDivisionError"
  using assms
  by (cases verbose)
     (simp_all add: process_audio_def path_exists_def subprocess_run_def getsize_def
        log_def print_def Let_def)

lemma spawned_append: "spawned (xs @ ys) = spawned xs @ spawned ys"
  by (induction xs rule: spawned.induct) simp_all

lemma scan_lines_frame:
  "files (snd (scan_lines ls ev w)) = files w \<and>
   spawned (trace (snd (scan_lines ls ev w))) = spawned (trace w) \<and>
   installed (snd (scan_lines ls ev w)) = installed w \<and>
   engine (snd (scan_lines ls ev w)) = engine w"
  by (induction ls ev w rule: scan_lines.induct) (simp_all add: print_def log_def spawned_append)

lemma analyze_silence_frame:
  assumes "installed w"
  shows "fst (analyze_silence self input_file w) = Inr () \<and>
    files (snd (analyze_silence self input_file w)) =
      files_after (engine w (analyze_cmd self input_file) (files w)) \<and>
    spawned (trace (snd (analyze_silence self input_file w))) =
      spawned (trace w) @ [analyze_cmd self input_file]"
  using assms
  by (simp add: analyze_silence_def subprocess_run_def print_def log_def Let_def
      scan_lines_frame spawned_append case_prod_beta)

lemma after_probe_simps:
  "installed (after_probe w) = installed w"
  "engine (after_probe w) = engine w"
  "files (after_probe w) = files_after (probe w)"
  "trace (after_probe w) = trace w @ [Spawn [''ffmpeg'', ''-version'']]"
  by (simp_all add: after_probe_def)



lemma process_cmd_shape:
  "process_cmd self i out v \<noteq> [''ffmpeg'', ''-version''] \<and> last (process_cmd self i out v) = out"
  by (simp add: process_cmd_def list_insert_def Let_def)

lemma analyze_cmd_shape:
  "analyze_cmd self i \<noteq> [''ffmpeg'', ''-version''] \<and> last (analyze_cmd self i) = ''-''"
  by (simp add: analyze_cmd_def)

lemma demo_probe:
  "probe_ok demo_world" "files_after (probe demo_world) = [''talk.mp3'' \<mapsto> 1000000]"
  "engine demo_world = demo_engine" "installed demo_world"
  by (simp_all add: demo_world_def demo_engine_def probe_def probe_ok_def)

lemma failing_probe:
  "probe_ok failing_world" "files_after (probe failing_world) = [''talk.mp3'' \<mapsto> 1000000]"
  "engine failing_world = failing_engine" "installed failing_world"
  by (simp_all add: failing_world_def demo_world_def failing_engine_def probe_def probe_ok_def)

lemma bare_probe: "\<not> probe_ok bare_world"
  by (simp add: bare_world_def probe_ok_def)

lemma parse_defaults_simps:
  "arg_input (parse_defaults i) = i" "arg_output (parse_defaults i) = None"
  "\<not> arg_verbose (parse_defaults i)" "\<not> arg_analyze (parse_defaults i)"
  "arg_silence_threshold (parse_defaults i) = ''-35dB''"
  "arg_silence_duration (parse_defaults i) = ''0.4''"
  "arg_target_loudness (parse_defaults i) = ''-16''"
  by (simp_all add: parse_defaults_def)

section \<open>Exit status\<close>




section \<open>More facts about a run\<close>


lemma analyze_silence_failed:
  assumes "installed w"
    and "r = engine w (analyze_cmd self input_file) (files w)"
    and "returncode r \<noteq> 0"
  shows "analyze_silence self input_file w =
     (Inr (),
      w\<lparr>files := files_after r,
        trace := trace w @
          [Print (''\<newline>Analyzing silence patterns in: '' @ input_file),
           Print (''Threshold: '' @ silence_threshold self @ '', Min duration: '' @
                  silence_duration self @ ''s\<newline>''),
           Spawn (analyze_cmd self input_file),
           Print (''Error analyzing silence: '' @
                  str_CalledProcessError (analyze_cmd self input_file) (returncode r))]\<rparr>)"
  using assms
  by (simp add: analyze_silence_def subprocess_run_def log_def print_def Let_def)

lemma process_audio_spawned:
  "spawned (trace (snd (process_audio self i out v w))) =
     spawned (trace w) @ (if files w i \<noteq> None then [process_cmd self i out v] else [])"
  by (cases v)
     (simp_all add: process_audio_def path_exists_def subprocess_run_def getsize_def log_def
        print_def Let_def spawned_append split: option.split)

lemma main_spawned:
  "spawned (trace (snd (main a w))) =
     spawned (trace w) @ [[''ffmpeg'', ''-version'']] @
     (if probe_ok w \<and> arg_analyze a
      then [analyze_cmd (override_defaults a VoicePromptProcessor) (arg_input a)]
      else if probe_ok w \<and> files_after (probe w) (arg_input a) \<noteq> None
      then [process_cmd (override_defaults a VoicePromptProcessor) (arg_input a)
              (output_file_of a) (arg_verbose a)]
      else [])"
proof (cases "probe_ok w")
  case False
  then show ?thesis
    by (simp add: main_def check_ffmpeg_failed spawned_append)
next
  case True
  then have i: "installed (after_probe w)"
    by (simp add: after_probe_simps probe_ok_def)
  show ?thesis
  proof (cases "arg_analyze a")
    case True
    with \<open>probe_ok w\<close> i show ?thesis
      by (simp add: main_analyze analyze_silence_frame after_probe_simps spawned_append)
  next
    case False
    with \<open>probe_ok w\<close> show ?thesis
      by (simp add: main_process process_audio_spawned after_probe_simps spawned_append)
  qed
qed

lemma example_traces:
  "trace demo_world = []" "trace failing_world = []" "trace bare_world = []"
  "files demo_world = [''talk.mp3'' \<mapsto> 1000000]"
  "files failing_world = [''talk.mp3'' \<mapsto> 1000000]"
  by (simp_all add: demo_world_def failing_world_def bare_world_def)

lemma default_overrides:
  "override_defaults (parse_defaults i\<lparr>arg_analyze := b\<rparr>) VoicePromptProcessor =
     VoicePromptProcessor\<lparr>silence_threshold := ''-35dB'', silence_duration := ''0.4''\<rparr>"
  by (simp add: override_defaults_def parse_defaults_def VoicePromptProcessor_def)





section \<open>A missing engine\<close>

text \<open>
  C8. When the availability probe fails, because the binary is missing or because the
  probe exits with a non-zero status, the run prints the message that ffmpeg was not
  found and returns 1. The probe is the only event before the message: the run does not
  look for the input file and spawns no other child.
\<close>

theorem engine_not_available:
  assumes "\<not> probe_ok w"
  shows "main a w =
     (Inr 1,
      w\<lparr>files := (if installed w then files_after (probe w) else files w),
        trace := trace w @ [Spawn [''ffmpeg'', ''-version''],
          Print ''Error: ffmpeg not found. Please install ffmpeg to use this script.'']\<rparr>)
     \<and> sys_exit (fst (main a w)) \<noteq> 0"
  using assms by (simp add: main_def check_ffmpeg_failed sys_exit_def)

text \<open>
  A run without the binary, in analysis mode, and a processing run whose probe exits
  with status 1.
\<close>

theorem engine_not_available_witness:
  "\<not> probe_ok bare_world \<and>
   main ((parse_defaults ''talk.mp3'')\<lparr>arg_analyze := True\<rparr>) bare_world =
     (Inr 1,
      bare_world\<lparr>trace := [Spawn [''ffmpeg'', ''-version''],
          Print ''Error: ffmpeg not found. Please install ffmpeg to use this script.'']\<rparr>) \<and>
   \<not> probe_ok broken_world \<and>
   main (parse_defaults ''talk.mp3'') broken_world =
     (Inr 1,
      broken_world\<lparr>trace := [Spawn [''ffmpeg'', ''-version''],
          Print ''Error: ffmpeg not found. Please install ffmpeg to use this script.'']\<rparr>)"
proof -
  have b: "\<not> probe_ok broken_world"
    by (simp add: broken_world_def demo_world_def probe_ok_def probe_def)
  have 1: "main ((parse_defaults ''talk.mp3'')\<lparr>arg_analyze := True\<rparr>) bare_world =
     (Inr 1,
      bare_world\<lparr>trace := [Spawn [''ffmpeg'', ''-version''],
          Print ''Error: ffmpeg not found. Please install ffmpeg to use this script.'']\<rparr>)"
    using engine_not_available [OF bare_probe,
        of "(parse_defaults ''talk.mp3'')\<lparr>arg_analyze := True\<rparr>"]
    by (simp add: bare_world_def demo_world_def)
  have 2: "main (parse_defaults ''talk.mp3'') broken_world =
     (Inr 1,
      broken_world\<lparr>trace := [Spawn [''ffmpeg'', ''-version''],
          Print ''Error: ffmpeg not found. Please install ffmpeg to use this script.'']\<rparr>)"
    using engine_not_available [OF b, of "parse_defaults ''talk.mp3''"]
    by (simp add: broken_world_def demo_world_def probe_def)
  show ?thesis
    using bare_probe b 1 2 by simp
qed

section \<open>A missing input file\<close>

text \<open>
  C2, as amended. Let the input path not exist when the probe has run. In processing
  mode with a successful probe the run tests the path, prints the message that the input
  file was not found and returns 1. In every mode the only children of the run are the
  probe and, in analysis mode, the analysis command: no processing command is spawned.
\<close>

theorem input_not_found:
  assumes "files_after (probe w) (arg_input a) = None"
  shows "(probe_ok w \<and> \<not> arg_analyze a \<longrightarrow>
      main a w =
        (Inr 1,
         w\<lparr>files := files_after (probe w),
           trace := trace w @ [Spawn [''ffmpeg'', ''-version''], Exists (arg_input a),
             Print (''Error: Input file '' @ [CHR 0x27] @ arg_input a @ [CHR 0x27] @
                    '' not found.'')]\<rparr>)) \<and>
    spawned (trace (snd (main a w))) =
      spawned (trace w) @ [[''ffmpeg'', ''-version'']] @
      (if probe_ok w \<and> arg_analyze a
       then [analyze_cmd (override_defaults a VoicePromptProcessor) (arg_input a)]
       else [])"
proof (intro conjI impI)
  assume h: "probe_ok w \<and> \<not> arg_analyze a"
  have "main a w = (fst (main a w), snd (main a w))"
    by simp
  also have "\<dots> = (Inr 1,
         w\<lparr>files := files_after (probe w),
           trace := trace w @ [Spawn [''ffmpeg'', ''-version''], Exists (arg_input a),
             Print (''Error: Input file '' @ [CHR 0x27] @ arg_input a @ [CHR 0x27] @
                    '' not found.'')]\<rparr>)"
    using h assms
    by (simp add: main_process process_audio_missing after_probe_simps after_probe_def)
  finally show "main a w = (Inr 1,
         w\<lparr>files := files_after (probe w),
           trace := trace w @ [Spawn [''ffmpeg'', ''-version''], Exists (arg_input a),
             Print (''Error: Input file '' @ [CHR 0x27] @ arg_input a @ [CHR 0x27] @
                    '' not found.'')]\<rparr>)" .
next
  show "spawned (trace (snd (main a w))) =
      spawned (trace w) @ [[''ffmpeg'', ''-version'']] @
      (if probe_ok w \<and> arg_analyze a
       then [analyze_cmd (override_defaults a VoicePromptProcessor) (arg_input a)]
       else [])"
    using assms by (simp add: main_spawned)
qed

text \<open>
  A processing run on a path that does not exist.
\<close>

theorem input_not_found_witness:
  "files_after (probe demo_world) (arg_input (parse_defaults ''nope.mp3'')) = None \<and>
   probe_ok demo_world \<and> \<not> arg_analyze (parse_defaults ''nope.mp3'') \<and>
   main (parse_defaults ''nope.mp3'') demo_world =
     (Inr 1,
      demo_world\<lparr>trace := [Spawn [''ffmpeg'', ''-version''], Exists ''nope.mp3'',
          Print ''Error: Input file 'nope.mp3' not found.'']\<rparr>) \<and>
   spawned (trace (snd (main (parse_defaults ''nope.mp3'') demo_world))) =
     [[''ffmpeg'', ''-version'']]"
proof -
  have h: "files_after (probe demo_world) (arg_input (parse_defaults ''nope.mp3'')) = None"
    by (simp add: demo_probe parse_defaults_simps)
  have w: "demo_world\<lparr>files := files demo_world, trace := t\<rparr> = demo_world\<lparr>trace := t\<rparr>" for t
    by simp
  show ?thesis
    using input_not_found [OF h] h demo_probe
    by (simp add: parse_defaults_simps example_traces w [unfolded example_traces])
qed

text \<open>
  The claim as first stated asks every run with a missing input to fail with the
  message that the input was not found. In analysis mode the path is not tested: the
  analysis child is spawned on it, its failure is printed and the run returns 0.
\<close>

theorem analysis_missing_input_counterexample:
  "files failing_world ''nope.mp3'' = None \<and>
   files_after (probe failing_world) ''nope.mp3'' = None \<and>
   fst (main ((parse_defaults ''nope.mp3'')\<lparr>arg_analyze := True\<rparr>) failing_world) = Inr 0 \<and>
   trace (snd (main ((parse_defaults ''nope.mp3'')\<lparr>arg_analyze := True\<rparr>) failing_world)) =
     [Spawn [''ffmpeg'', ''-version''],
      Print ''\<newline>Analyzing silence patterns in: nope.mp3'',
      Print ''Threshold: -35dB, Min duration: 0.4s\<newline>'',
      Spawn [''ffmpeg'', ''-i'', ''nope.mp3'', ''-af'', ''silencedetect=noise=-35dB:d=0.4'',
             ''-f'', ''null'', ''-''],
      Print ''Error analyzing silence: Command '['ffmpeg', '-i', 'nope.mp3', '-af', 'silencedetect=noise=-35dB:d=0.4', '-f', 'null', '-']' returned non-zero exit status 1.'']"
proof -
  let ?a = "(parse_defaults ''nope.mp3'')\<lparr>arg_analyze := True\<rparr>"
  let ?p = "VoicePromptProcessor\<lparr>silence_threshold := ''-35dB'', silence_duration := ''0.4''\<rparr>"
  let ?w = "after_probe failing_world"
  have i: "installed ?w"
    by (simp add: after_probe_simps failing_probe)
  have r: "engine ?w (analyze_cmd ?p ''nope.mp3'') (files ?w) =
      \<lparr> returncode = 1, stdout = [],
        stderr = ''talk.mp3: Invalid data found when processing input'',
        files_after = [''talk.mp3'' \<mapsto> 1000000] \<rparr>"
    by (simp add: after_probe_simps failing_probe failing_engine_def analyze_cmd_shape)
  have m: "str_CalledProcessError
      [''ffmpeg'', ''-i'', ''nope.mp3'', ''-af'', ''silencedetect=noise=-35dB:d=0.4'',
       ''-f'', ''null'', ''-''] (Suc 0) =
      ''Command '['ffmpeg', '-i', 'nope.mp3', '-af', 'silencedetect=noise=-35dB:d=0.4', '-f', 'null', '-']' returned non-zero exit status 1.''"
    by (simp add: str_CalledProcessError_def repr_list_def repr_str_def repr_char_def
        str_nat.simps digit_def Let_def)
  have c: "analyze_cmd ?p ''nope.mp3'' =
      [''ffmpeg'', ''-i'', ''nope.mp3'', ''-af'', ''silencedetect=noise=-35dB:d=0.4'',
       ''-f'', ''null'', ''-'']"
    by (simp add: analyze_cmd_def)
  have "analyze_silence ?p ''nope.mp3'' ?w =
     (Inr (),
      ?w\<lparr>files := [''talk.mp3'' \<mapsto> 1000000],
        trace := trace ?w @
          [Print (''\<newline>Analyzing silence patterns in: '' @ ''nope.mp3''),
           Print (''Threshold: '' @ silence_threshold ?p @ '', Min duration: '' @
                  silence_duration ?p @ ''s\<newline>''),
           Spawn (analyze_cmd ?p ''nope.mp3''),
           Print (''Error analyzing silence: '' @
                  str_CalledProcessError (analyze_cmd ?p ''nope.mp3'') 1)]\<rparr>)"
    using analyze_silence_failed [OF i r [symmetric]] by simp
  then show ?thesis
    by (simp add: main_analyze failing_probe default_overrides parse_defaults_simps
        after_probe_simps example_traces c m)
qed

section \<open>The size report\<close>

text \<open>
  C7. Let the input exist and the processing child exit with status 0, and let the two
  sizes read after the child has exited be \<open>isz\<close> and \<open>osz\<close> bytes, with \<open>isz\<close> positive.
  Then \<open>process_audio\<close> returns \<open>True\<close>, both sizes are read after the child was
  spawned, and the reduction it reports is \<open>(isz - osz) / isz * 100\<close>: the computation
  on megabytes in the code equals the formula on bytes.
\<close>

theorem size_reduction_report:
  assumes "files w input_file \<noteq> None" and "installed w"
    and "r = engine w (process_cmd self input_file output_file verbose) (files w)"
    and "returncode r = 0"
    and "files_after r input_file = Some isz" and "files_after r output_file = Some osz"
    and "0 < isz"
  shows "fst (process_audio self input_file output_file verbose w) = Inr True \<and>
    files (snd (process_audio self input_file output_file verbose w)) = files_after r \<and>
    trace (snd (process_audio self input_file output_file verbose w)) =
      trace w @ [Exists input_file] @
          (if verbose
           then [Print (''\<newline>Processing: '' @ input_file),
                 Print (''Output: '' @ output_file),
                 Print (''\<newline>Filter chain: '' @ build_filter_chain self @ ''\<newline>'')]
           else []) @
          [Spawn (process_cmd self input_file output_file verbose)] @
          (if verbose
           then [Stream (stdout r) (stderr r),
                 Print ([CHR 0x0A, CHR 0xE2, CHR 0x9C, CHR 0x93] @ '' Processing complete!'')]
           else []) @
          [Getsize input_file, Getsize output_file,
           PrintFileSize (of_nat isz / 1024 / 1024) (of_nat osz / 1024 / 1024)
             ((of_nat isz - of_nat osz) / of_nat isz * 100)]"
  using process_audio_reported [OF assms] by simp

text \<open>
  A run that turns 1000000 bytes into 250000 bytes reports a reduction of 75.
\<close>

theorem size_reduction_report_witness:
  "files demo_world ''talk.mp3'' \<noteq> None \<and> installed demo_world \<and>
   returncode (engine demo_world (process_cmd VoicePromptProcessor ''talk.mp3'' ''out.mp3'' False)
     (files demo_world)) = 0 \<and>
   files (snd (process_audio VoicePromptProcessor ''talk.mp3'' ''out.mp3'' False demo_world))
     ''talk.mp3'' = Some 1000000 \<and>
   files (snd (process_audio VoicePromptProcessor ''talk.mp3'' ''out.mp3'' False demo_world))
     ''out.mp3'' = Some 250000 \<and>
   fst (process_audio VoicePromptProcessor ''talk.mp3'' ''out.mp3'' False demo_world) = Inr True \<and>
   trace (snd (process_audio VoicePromptProcessor ''talk.mp3'' ''out.mp3'' False demo_world)) =
     [Exists ''talk.mp3'',
      Spawn (process_cmd VoicePromptProcessor ''talk.mp3'' ''out.mp3'' False),
      Getsize ''talk.mp3'', Getsize ''out.mp3'',
      PrintFileSize (15625 / 16384) (15625 / 65536) 75]"
proof -
  let ?r = "engine demo_world (process_cmd VoicePromptProcessor ''talk.mp3'' ''out.mp3'' False)
     (files demo_world)"
  have f: "files demo_world ''talk.mp3'' \<noteq> None" and i: "installed demo_world"
    by (simp_all add: example_traces demo_probe)
  have r: "returncode ?r = 0" "files_after ?r ''talk.mp3'' = Some 1000000"
    "files_after ?r ''out.mp3'' = Some 250000"
    by (simp_all add: demo_probe demo_engine_def process_cmd_shape example_traces)
  have p: "0 < (1000000::nat)"
    by simp
  show ?thesis
    using size_reduction_report [OF f i refl r p] f i r
    by (simp add: example_traces)
qed

section \<open>A failing engine in quiet mode\<close>




section \<open>Overrides from the command line\<close>




section \<open>Analysis mode\<close>

text \<open>
  C6. In analysis mode the output argument has no effect on the run. The children of
  the run are the probe and, when the probe succeeds, the analysis command, whose only
  sink is the null muxer on \<open>-\<close>; the processing command is never spawned. The script
  itself writes no file: when its children leave the file system as it is, so does the
  run, whether the analysis child succeeds or fails.
\<close>

theorem analysis_writes_no_output:
  assumes "arg_analyze a"
  shows "main (a\<lparr>arg_output := out\<rparr>) w = main a w \<and>
    spawned (trace (snd (main a w))) =
      spawned (trace w) @ [[''ffmpeg'', ''-version'']] @
      (if probe_ok w
       then [[''ffmpeg'', ''-i'', arg_input a, ''-af'',
              ''silencedetect=noise='' @
                silence_threshold (override_defaults a VoicePromptProcessor) @ '':d='' @
                silence_duration (override_defaults a VoicePromptProcessor),
              ''-f'', ''null'', ''-'']]
       else []) \<and>
    (probe_ok w \<and> files_after (probe w) = files w \<and>
     files_after (engine w (analyze_cmd (override_defaults a VoicePromptProcessor) (arg_input a))
                    (files w)) = files w
       \<longrightarrow> files (snd (main a w)) = files w)"
proof (intro conjI impI)
  have "override_defaults (a\<lparr>arg_output := out\<rparr>) VoicePromptProcessor =
      override_defaults a VoicePromptProcessor"
    by (simp add: override_defaults_def)
  with assms show "main (a\<lparr>arg_output := out\<rparr>) w = main a w"
    by (cases "probe_ok w")
       (simp_all add: prod_eq_iff main_analyze, simp add: main_def check_ffmpeg_failed)
next
  from assms show "spawned (trace (snd (main a w))) =
      spawned (trace w) @ [[''ffmpeg'', ''-version'']] @
      (if probe_ok w
       then [[''ffmpeg'', ''-i'', arg_input a, ''-af'',
              ''silencedetect=noise='' @
                silence_threshold (override_defaults a VoicePromptProcessor) @ '':d='' @
                silence_duration (override_defaults a VoicePromptProcessor),
              ''-f'', ''null'', ''-'']]
       else [])"
    by (simp add: main_spawned analyze_cmd_def)
next
  assume h: "probe_ok w \<and> files_after (probe w) = files w \<and>
     files_after (engine w (analyze_cmd (override_defaults a VoicePromptProcessor) (arg_input a))
                    (files w)) = files w"
  then have "installed (after_probe w)"
    by (simp add: after_probe_simps probe_ok_def)
  with h assms show "files (snd (main a w)) = files w"
    by (simp add: main_analyze analyze_silence_frame after_probe_simps)
qed

text \<open>
  An analysis run whose output argument names the input file.
\<close>

theorem analysis_writes_no_output_witness:
  "arg_analyze ((parse_defaults ''talk.mp3'')\<lparr>arg_analyze := True\<rparr>) \<and>
   probe_ok demo_world \<and>
   files_after (probe demo_world) = files demo_world \<and>
   files_after (engine demo_world
     (analyze_cmd (override_defaults ((parse_defaults ''talk.mp3'')\<lparr>arg_analyze := True\<rparr>)
        VoicePromptProcessor) ''talk.mp3'') (files demo_world)) = files demo_world \<and>
   main ((parse_defaults ''talk.mp3'')\<lparr>arg_analyze := True\<rparr>\<lparr>arg_output := Some ''talk.mp3''\<rparr>)
     demo_world =
   main ((parse_defaults ''talk.mp3'')\<lparr>arg_analyze := True\<rparr>) demo_world \<and>
   spawned (trace (snd (main ((parse_defaults ''talk.mp3'')\<lparr>arg_analyze := True\<rparr>) demo_world))) =
     [[''ffmpeg'', ''-version''],
      [''ffmpeg'', ''-i'', ''talk.mp3'', ''-af'', ''silencedetect=noise=-35dB:d=0.4'',
       ''-f'', ''null'', ''-'']] \<and>
   files (snd (main ((parse_defaults ''talk.mp3'')\<lparr>arg_analyze := True\<rparr>) demo_world)) =
     [''talk.mp3'' \<mapsto> 1000000]"
proof -
  let ?a = "(parse_defaults ''talk.mp3'')\<lparr>arg_analyze := True\<rparr>"
  have a: "arg_analyze ?a"
    by simp
  have f: "files_after (probe demo_world) = files demo_world"
    by (simp add: demo_probe example_traces)
  have e: "files_after (engine demo_world
     (analyze_cmd (override_defaults ?a VoicePromptProcessor) ''talk.mp3'') (files demo_world)) =
     files demo_world"
    by (simp add: demo_probe demo_engine_def analyze_cmd_shape)
  show ?thesis
    using analysis_writes_no_output [OF a, of "Some ''talk.mp3''" demo_world] a f e demo_probe(1)
    by (simp add: default_overrides parse_defaults_simps example_traces)
qed

section \<open>The default output path\<close>

lemma parse_parts_valid:
  "x \<in> set (parse_parts s) \<Longrightarrow> x \<noteq> [] \<and> x \<noteq> ''.'' \<and> CHR ''/'' \<notin> set x"
  by (auto simp: parse_parts_def dest: py_split_no_sep)

lemma parse_parts_join:
  "\<forall>x\<in>set parts. x \<noteq> [] \<and> x \<noteq> ''.'' \<and> CHR ''/'' \<notin> set x \<Longrightarrow>
   parse_parts (join ''/'' parts) = parts"
proof (cases parts)
  case Nil
  then show ?thesis by (simp add: parse_parts_def)
next
  case (Cons p ps)
  assume v: "\<forall>x\<in>set parts. x \<noteq> [] \<and> x \<noteq> ''.'' \<and> CHR ''/'' \<notin> set x"
  then have "py_split CHR ''/'' (join ''/'' (p # ps)) = p # ps"
    using Cons by (intro py_split_join) simp
  moreover have "filter (\<lambda>x. x \<noteq> [] \<and> x \<noteq> ''.'') parts = parts"
    using v by (intro filter_True) simp
  ultimately show ?thesis
    using Cons by (simp add: parse_parts_def)
qed

lemma join_head:
  "\<forall>x\<in>set parts. x \<noteq> [] \<and> CHR ''/'' \<notin> set x \<Longrightarrow> take 1 (join ''/'' parts) \<noteq> ''/''"
proof (cases parts)
  case Nil
  then show ?thesis by simp
next
  case (Cons p ps)
  assume "\<forall>x\<in>set parts. x \<noteq> [] \<and> CHR ''/'' \<notin> set x"
  with Cons obtain a p' where "p = a # p'" "a \<noteq> CHR ''/''"
    by (cases p) auto
  with Cons show ?thesis
    by (cases ps) simp_all
qed

lemma splitroot_root: "fst (splitroot s) = [] \<or> fst (splitroot s) = ''/'' \<or> fst (splitroot s) = ''//''"
proof (cases s)
  case Nil
  then show ?thesis by (simp add: splitroot_def)
next
  case (Cons a s')
  then show ?thesis
    by (cases s') (auto simp: splitroot_def)
qed

lemma splitroot_join:
  assumes "r = [] \<or> r = ''/'' \<or> r = ''//''"
    and "\<forall>x\<in>set parts. x \<noteq> [] \<and> CHR ''/'' \<notin> set x"
  shows "splitroot (r @ join ''/'' parts) = (r, join ''/'' parts)"
proof -
  have h: "take 1 (join ''/'' parts) \<noteq> ''/''"
    using assms(2) by (rule join_head)
  from assms(1) show ?thesis
  proof (elim disjE)
    assume "r = []"
    with h show ?thesis by (simp add: splitroot_def)
  next
    assume "r = ''/''"
    with h show ?thesis by (simp add: splitroot_def)
  next
    assume "r = ''//''"
    with h show ?thesis by (simp add: splitroot_def)
  qed
qed

lemma Path_valid:
  "(root (Path s) = [] \<or> root (Path s) = ''/'' \<or> root (Path s) = ''//'') \<and>
   (\<forall>x\<in>set (tail (Path s)). x \<noteq> [] \<and> x \<noteq> ''.'' \<and> CHR ''/'' \<notin> set x)"
  using splitroot_root [of s] parse_parts_valid
  by (auto simp: Path_def split: prod.splits)

lemma Path_str_path:
  assumes "root q = [] \<or> root q = ''/'' \<or> root q = ''//''"
    and "\<forall>x\<in>set (tail q). x \<noteq> [] \<and> x \<noteq> ''.'' \<and> CHR ''/'' \<notin> set x"
  shows "Path (str_path q) = q"
proof (cases "root q = [] \<and> tail q = []")
  case True
  then show ?thesis
    by (simp add: str_path_def Path_def splitroot_def parse_parts_def)
next
  case False
  from assms(2) have v: "\<forall>x\<in>set (tail q). x \<noteq> [] \<and> CHR ''/'' \<notin> set x"
    by simp
  have ne: "root q @ join ''/'' (tail q) \<noteq> []"
  proof (cases "tail q")
    case Nil
    with False show ?thesis by simp
  next
    case (Cons p ps)
    with assms(2) have "p \<noteq> []" by simp
    with Cons show ?thesis by (cases ps) simp_all
  qed
  then have "str_path q = root q @ join ''/'' (tail q)"
    by (simp add: str_path_def Let_def)
  then show ?thesis
    using splitroot_join [OF assms(1) v] parse_parts_join [OF assms(2)]
    by (simp add: Path_def)
qed

lemma stem_suffix_name: "stem p @ suffix p = name p"
  by (simp add: stem_def suffix_def split: option.split)

lemma name_valid:
  assumes "\<forall>x\<in>set (tail p). x \<noteq> [] \<and> x \<noteq> ''.'' \<and> CHR ''/'' \<notin> set x"
  shows "CHR ''/'' \<notin> set (name p)"
  using assms by (simp add: name_def)

lemma new_name_valid:
  assumes "\<forall>x\<in>set (tail p). x \<noteq> [] \<and> x \<noteq> ''.'' \<and> CHR ''/'' \<notin> set x"
  shows "take 1 (stem p @ ''_processed'' @ suffix p) \<noteq> ''/'' \<and>
    parse_parts (stem p @ ''_processed'' @ suffix p) = [stem p @ ''_processed'' @ suffix p]"
proof -
  let ?n = "stem p @ ''_processed'' @ suffix p"
  have "set (stem p) \<union> set (suffix p) = set (name p)"
    using stem_suffix_name [of p] by (metis set_append)
  with name_valid [OF assms] have s: "CHR ''/'' \<notin> set (stem p)" "CHR ''/'' \<notin> set (suffix p)"
    by auto
  then have ns: "CHR ''/'' \<notin> set ?n"
    by simp
  have "length ?n \<ge> 10"
    by simp
  then have nd: "?n \<noteq> []" "?n \<noteq> ''.''"
    by auto
  have "take 1 ?n \<noteq> ''/''"
    using s(1) by (cases "stem p") auto
  moreover have "parse_parts ?n = [?n]"
    using ns nd by (simp add: parse_parts_def py_split_plain)
  ultimately show ?thesis
    by simp
qed

lemma Path_default_output_file:
  "Path (default_output_file inp) =
     \<lparr> root = root (Path inp),
       tail = butlast (tail (Path inp)) @
              [stem (Path inp) @ ''_processed'' @ suffix (Path inp)] \<rparr>"
proof -
  let ?p = "Path inp"
  let ?n = "stem ?p @ ''_processed'' @ suffix ?p"
  let ?q = "\<lparr> root = root ?p, tail = butlast (tail ?p) @ [?n] \<rparr>"
  have v: "\<forall>x\<in>set (tail ?p). x \<noteq> [] \<and> x \<noteq> ''.'' \<and> CHR ''/'' \<notin> set x"
    and r: "root ?p = [] \<or> root ?p = ''/'' \<or> root ?p = ''//''"
    using Path_valid [of inp] by simp_all
  have n: "take 1 ?n \<noteq> ''/''" "parse_parts ?n = [?n]"
    using new_name_valid [OF v] by simp_all
  have t: "truediv (parent ?p) ?n = ?q"
    using n by (simp add: truediv_def parent_def)
  have "\<forall>x\<in>set (butlast (tail ?p)). x \<noteq> [] \<and> x \<noteq> ''.'' \<and> CHR ''/'' \<notin> set x"
    using v by (meson in_set_butlastD)
  moreover have "?n \<noteq> [] \<and> ?n \<noteq> ''.'' \<and> CHR ''/'' \<notin> set ?n"
    using n(2) parse_parts_valid [of ?n ?n] by simp
  ultimately have vq: "\<forall>x\<in>set (tail ?q). x \<noteq> [] \<and> x \<noteq> ''.'' \<and> CHR ''/'' \<notin> set x"
    by simp
  have rq: "root ?q = [] \<or> root ?q = ''/'' \<or> root ?q = ''//''"
    using r by simp
  show ?thesis
    using Path_str_path [OF rq vq] t by (simp add: default_output_file_def Let_def)
qed

lemma rfind_None: "rfind c s = None \<longleftrightarrow> c \<notin> set s"
  by (induction s) (auto split: option.splits)

lemma rfind_Some:
  "rfind c s = Some i \<Longrightarrow> i < length s \<and> s ! i = c"
  by (induction s arbitrary: i) (auto split: option.splits if_splits)

lemma rfind_append:
  "rfind c (xs @ ys) =
     (case rfind c ys of Some j \<Rightarrow> Some (length xs + j) | None \<Rightarrow> rfind c xs)"
  by (induction xs) (auto split: option.splits)

lemma rfind_drop:
  assumes "rfind c s = Some i"
  shows "rfind c (drop i s) = Some 0"
proof -
  have b: "i < length s"
    using assms by (simp add: rfind_Some)
  have "rfind c (take i s @ drop i s) = Some i"
    using assms by simp
  then have *: "(case rfind c (drop i s) of Some j \<Rightarrow> Some (length (take i s) + j)
      | None \<Rightarrow> rfind c (take i s)) = Some i"
    by (simp only: rfind_append)
  show ?thesis
  proof (cases "rfind c (drop i s)")
    case None
    with * have "rfind c (take i s) = Some i"
      by simp
    then have "i < length (take i s)"
      by (rule rfind_Some [THEN conjunct1])
    then show ?thesis
      by simp
  next
    case (Some j)
    with * b show ?thesis
      by simp
  qed
qed

lemma processed_name_parts:
  assumes "name q = stem p @ ''_processed'' @ suffix p"
    and "name p = [] \<or> last (name p) \<noteq> CHR ''.''"
  shows "stem q = stem p @ ''_processed'' \<and> suffix q = suffix p"
proof (cases "rfind CHR ''.'' (name p)")
  case None
  then have "stem p = name p" "suffix p = []"
    by (simp_all add: stem_def suffix_def)
  moreover from None have "rfind CHR ''.'' (name p @ ''_processed'') = None"
    by (simp add: rfind_None)
  ultimately show ?thesis
    using assms(1) by (simp add: stem_def suffix_def)
next
  case (Some i)
  then have b: "i < length (name p)" "name p ! i = CHR ''.''"
    by (simp_all add: rfind_Some)
  show ?thesis
  proof (cases "0 < i \<and> Suc i < length (name p)")
    case True
    with Some have s: "stem p = take i (name p)" "suffix p = drop i (name p)"
      by (simp_all add: stem_def suffix_def)
    have "rfind CHR ''.'' (''_processed'' @ drop i (name p)) = Some (10 + 0)"
      using rfind_drop [OF Some] by (simp only: rfind_append) simp
    then have "rfind CHR ''.'' (take i (name p) @ ''_processed'' @ drop i (name p)) =
        Some (length (take i (name p)) + 10)"
      by (simp only: rfind_append [of _ "take i (name p)"]) simp
    then have r: "rfind CHR ''.'' (name q) = Some (i + 10)"
      using assms(1) s b(1) by simp
    have l: "length (name q) = length (name p) + 10"
      using assms(1) stem_suffix_name [of p, symmetric] by simp
    have "take (i + 10) (name q) = take i (name p) @ ''_processed''"
      "drop (i + 10) (name q) = drop i (name p)"
      using assms(1) s b(1) by simp_all
    with r l True s show ?thesis
      by (simp add: stem_def suffix_def)
  next
    case False
    with Some have s: "stem p = name p" "suffix p = []"
      by (simp_all add: stem_def suffix_def)
    have "i = 0"
    proof (rule ccontr)
      assume "i \<noteq> 0"
      with False b(1) have "Suc i = length (name p)"
        by simp
      with b(2) have "name p \<noteq> [] \<and> last (name p) = CHR ''.''"
        by (cases "name p" rule: rev_cases) auto
      with assms(2) show False
        by simp
    qed
    with Some have "rfind CHR ''.'' (name p @ ''_processed'') = Some 0"
      by (simp add: rfind_append)
    with s assms(1) show ?thesis
      by (simp add: stem_def suffix_def)
  qed
qed

text \<open>
  C4. When no output path is given, the computed output path is the input path with
  its last component replaced: it has the root and the parent directory of the input
  path, and its name is the stem of the input name, then \<open>_processed\<close>, then the suffix
  of the input name. Unless the input name ends in a dot, the stem of the output name is
  the stem of the input name with \<open>_processed\<close> and its suffix is the suffix of the input
  name. For \<open>talk.mp3\<close> the output path is \<open>talk_processed.mp3\<close>.
\<close>

theorem default_output_file_parts:
  "Path (default_output_file inp) =
     \<lparr> root = root (Path inp),
       tail = butlast (tail (Path inp)) @
              [stem (Path inp) @ ''_processed'' @ suffix (Path inp)] \<rparr> \<and>
   parent (Path (default_output_file inp)) = parent (Path inp) \<and>
   name (Path (default_output_file inp)) = stem (Path inp) @ ''_processed'' @ suffix (Path inp) \<and>
   stem (Path inp) @ suffix (Path inp) = name (Path inp) \<and>
   (name (Path inp) = [] \<or> last (name (Path inp)) \<noteq> CHR ''.'' \<longrightarrow>
      stem (Path (default_output_file inp)) = stem (Path inp) @ ''_processed'' \<and>
      suffix (Path (default_output_file inp)) = suffix (Path inp)) \<and>
   default_output_file ''talk.mp3'' = ''talk_processed.mp3''"
proof -
  let ?p = "Path inp"
  let ?q = "Path (default_output_file inp)"
  have 1: "?q = \<lparr> root = root ?p,
       tail = butlast (tail ?p) @ [stem ?p @ ''_processed'' @ suffix ?p] \<rparr>"
    by (rule Path_default_output_file)
  have 2: "parent ?q = parent ?p"
    unfolding 1 by (cases "tail ?p = []") (simp_all add: parent_def)
  have 3: "name ?q = stem ?p @ ''_processed'' @ suffix ?p"
    unfolding 1 by (simp add: name_def)
  have 4: "stem ?q = stem ?p @ ''_processed'' \<and> suffix ?q = suffix ?p"
    if "name ?p = [] \<or> last (name ?p) \<noteq> CHR ''.''"
    using 3 that by (rule processed_name_parts)
  have 5: "default_output_file ''talk.mp3'' = ''talk_processed.mp3''"
    by (simp add: default_output_file_def Path_def splitroot_def parse_parts_def stem_def
      suffix_def name_def parent_def truediv_def str_path_def Let_def)
  show ?thesis
    using 1 2 3 4 5 stem_suffix_name [of ?p] by blast
qed

text \<open>
  An absolute input path with two dots in its name.
\<close>

theorem default_output_file_parts_witness:
  "Path ''/home/user/a.b/talk.tar.gz'' =
     \<lparr> root = ''/'', tail = [''home'', ''user'', ''a.b'', ''talk.tar.gz''] \<rparr> \<and>
   last (name (Path ''/home/user/a.b/talk.tar.gz'')) \<noteq> CHR ''.'' \<and>
   Path (default_output_file ''/home/user/a.b/talk.tar.gz'') =
     \<lparr> root = ''/'', tail = [''home'', ''user'', ''a.b'', ''talk.tar_processed.gz''] \<rparr> \<and>
   stem (Path (default_output_file ''/home/user/a.b/talk.tar.gz'')) = ''talk.tar_processed'' \<and>
   suffix (Path (default_output_file ''/home/user/a.b/talk.tar.gz'')) = ''.gz''"
proof -
  have p: "Path ''/home/user/a.b/talk.tar.gz'' =
     \<lparr> root = ''/'', tail = [''home'', ''user'', ''a.b'', ''talk.tar.gz''] \<rparr>"
    by (simp add: Path_def splitroot_def parse_parts_def)
  have s: "stem \<lparr> root = ''/'', tail = [''home'', ''user'', ''a.b'', ''talk.tar.gz''] \<rparr> = ''talk.tar''"
    "suffix \<lparr> root = ''/'', tail = [''home'', ''user'', ''a.b'', ''talk.tar.gz''] \<rparr> = ''.gz''"
    "name \<lparr> root = ''/'', tail = [''home'', ''user'', ''a.b'', ''talk.tar.gz''] \<rparr> = ''talk.tar.gz''"
    by (simp_all add: stem_def suffix_def name_def)
  show ?thesis
    using default_output_file_parts [of "''/home/user/a.b/talk.tar.gz''"]
    by (simp add: p s stem_def suffix_def name_def)
qed

end
